theory Spec2Isabelle
  imports Complex_Main
begin

section \<open>JavaScript values used by the portal\<close>

text \<open>
  The TypeScript sources compute with JavaScript numbers, which are IEEE 754 binary64
  values: every division and multiplication returns the representable value nearest to
  the exact result, a tie going to the value with the even significand. The model
  carries a number as the real it denotes (or one of the two special results of a
  zero divisor) and rounds after each operation with \<open>round64\<close>.

  The exponent range of binary64 is not modelled. The numbers rounded in the portal
  are quotients of two counters and their products with 100; a counter is an integer
  below \<open>2^53\<close>, so these values lie between \<open>2^(-53)\<close> and \<open>2^60\<close>, far inside
  the normal range. Counters and the coordinates of the landing scene are integers
  of small size (the scene starts at (300, 200) and steps by 2), on which addition
  and subtraction are exact; they are modelled as naturals and reals.
\<close>

datatype js_error = TypeError

datatype number = Num real | PosInfinity | NaN

text \<open>The binary exponent of a positive real: the \<open>e\<close> with \<open>2^e \<le> x < 2^(e+1)\<close>.\<close>

function expo :: "real \<Rightarrow> int" where
  "expo x =
     (if x \<le> 0 then 0
      else if 2 \<le> x then expo (x / 2) + 1
      else if x < 1 then expo (x * 2) - 1
      else 0)"
  by pat_completeness auto
termination
proof (relation "measure (\<lambda>x. if 1 \<le> x then nat \<lfloor>x\<rfloor> else nat \<lceil>1 / x\<rceil>)")
  show "wf (measure (\<lambda>x::real. if 1 \<le> x then nat \<lfloor>x\<rfloor> else nat \<lceil>1 / x\<rceil>))" by simp
next
  fix x :: real
  assume "\<not> x \<le> 0" and x2: "2 \<le> x"
  have "\<lfloor>x / 2\<rfloor> + 1 = \<lfloor>x / 2 + 1\<rfloor>" by simp
  also have "\<dots> \<le> \<lfloor>x\<rfloor>" using x2 by (intro floor_mono) simp
  finally have a: "\<lfloor>x / 2\<rfloor> < \<lfloor>x\<rfloor>" by simp
  have b: "0 \<le> \<lfloor>x / 2\<rfloor>" using x2 by simp
  show "(x / 2, x) \<in> measure (\<lambda>x. if 1 \<le> x then nat \<lfloor>x\<rfloor> else nat \<lceil>1 / x\<rceil>)"
    using x2 a b by simp
next
  fix x :: real
  assume p: "\<not> x \<le> 0" and "\<not> 2 \<le> x" and x1: "x < 1"
  from p have x0: "0 < x" by simp
  show "(x * 2, x) \<in> measure (\<lambda>x. if 1 \<le> x then nat \<lfloor>x\<rfloor> else nat \<lceil>1 / x\<rceil>)"
  proof (cases "1 \<le> x * 2")
    case True
    have a: "\<lfloor>x * 2\<rfloor> < 2" using x1 by (simp add: floor_less_iff)
    have "1 < 1 / x" using x0 x1 by simp
    then have b: "1 < \<lceil>1 / x\<rceil>" by (simp add: less_ceiling_iff)
    from a b have "nat \<lfloor>x * 2\<rfloor> < nat \<lceil>1 / x\<rceil>" by linarith
    then show ?thesis using True x1 by simp
  next
    case False
    then have y: "2 < 1 / x" using x0 by (simp add: field_simps)
    have "x * 2 < 1" using False by simp
    then have "1 \<le> (1 - x) * 2" by simp
    then have "1 / (x * 2) \<le> (1 - x) / x" using x0 by (simp add: field_simps)
    also have "\<dots> = 1 / x - 1" using x0 by (simp add: field_simps)
    finally have "\<lceil>1 / (x * 2)\<rceil> \<le> \<lceil>1 / x - 1\<rceil>" by (rule ceiling_mono)
    then have a: "\<lceil>1 / (x * 2)\<rceil> < \<lceil>1 / x\<rceil>" by simp
    have "0 < \<lceil>1 / x\<rceil>" using x0 by (simp add: less_ceiling_iff)
    then show ?thesis using False x1 a by simp
  qed
qed

declare expo.simps [simp del]

text \<open>Rounding to the nearest integer, a tie going to the even neighbour.\<close>

definition round_even :: "real \<Rightarrow> int" where
  "round_even m =
     (let f = \<lfloor>m\<rfloor>; d = m - of_int f
      in if d < 1 / 2 then f else if 1 / 2 < d then f + 1 else if even f then f else f + 1)"

text \<open>The binary64 value nearest to a real: the significand is rounded to 53 bits.\<close>

definition round64 :: "real \<Rightarrow> real" where
  "round64 x =
     (let e = expo \<bar>x\<bar>; u = 2 powi (e - 52)
      in sgn x * of_int (round_even (\<bar>x\<bar> / u)) * u)"

text \<open>\<open>a / b\<close> for two counters, and \<open>v * 100\<close>.\<close>

definition js_divide :: "nat \<Rightarrow> nat \<Rightarrow> number" where
  "js_divide a b =
     (if b = 0 then (if a = 0 then NaN else PosInfinity)
      else Num (round64 (real a / real b)))"

fun times100 :: "number \<Rightarrow> number" where
  "times100 (Num r) = Num (round64 (r * 100))"
| "times100 PosInfinity = PosInfinity"
| "times100 NaN = NaN"

fun number_ge :: "number \<Rightarrow> real \<Rightarrow> bool" where
  "number_ge (Num r) k = (r \<ge> k)"
| "number_ge PosInfinity k = True"
| "number_ge NaN k = False"

fun number_le :: "number \<Rightarrow> number \<Rightarrow> bool" where
  "number_le (Num a) (Num b) = (a \<le> b)"
| "number_le (Num a) PosInfinity = True"
| "number_le PosInfinity PosInfinity = True"
| "number_le a b = False"

text \<open>\<open>Array.prototype.findIndex\<close>: the index of the first element satisfying the
  predicate, or \<open>-1\<close>.\<close>

fun findIndex :: "('a \<Rightarrow> bool) \<Rightarrow> 'a list \<Rightarrow> int" where
  "findIndex P [] = - 1"
| "findIndex P (x # xs) =
     (if P x then 0
      else (let i = findIndex P xs in if i = - 1 then - 1 else i + 1))"

text \<open>\<open>xs[j]\<close> on an array: the element when \<open>j\<close> is in range, \<open>undefined\<close>
  (here \<open>None\<close>) otherwise, including for negative \<open>j\<close>.\<close>

definition at_index :: "'a list \<Rightarrow> int \<Rightarrow> 'a option" where
  "at_index xs j = (if 0 \<le> j \<and> j < int (length xs) then Some (xs ! nat j) else None)"

text \<open>Truthiness of a value of type \<open>string | null | undefined\<close>.\<close>

fun truthy :: "string option \<Rightarrow> bool" where
  "truthy None = False"
| "truthy (Some v) = (v \<noteq> [])"

text \<open>
  Reading a property of a plain object whose own properties hold strings
  (\<open>Record<string, string>\<close>, built by object literals and spread): an own property
  gives its string; a key that is not an own property but names a property of
  \<open>Object.prototype\<close> gives that inherited member (a function or object, never a
  string); any other key gives \<open>undefined\<close>.
\<close>

datatype js_value = Undefined | Str string | Inherited

definition object_prototype_keys :: "string set" where
  "object_prototype_keys =
     {''constructor'', ''__defineGetter__'', ''__defineSetter__'', ''hasOwnProperty'',
      ''__lookupGetter__'', ''__lookupSetter__'', ''isPrototypeOf'',
      ''propertyIsEnumerable'', ''toString'', ''valueOf'', ''__proto__'',
      ''toLocaleString''}"

definition get_property :: "(string \<rightharpoonup> string) \<Rightarrow> string \<Rightarrow> js_value" where
  "get_property obj k =
     (case obj k of
        Some v \<Rightarrow> Str v
      | None \<Rightarrow> if k \<in> object_prototype_keys then Inherited else Undefined)"

fun value_truthy :: "js_value \<Rightarrow> bool" where
  "value_truthy Undefined = False"
| "value_truthy (Str v) = (v \<noteq> [])"
| "value_truthy Inherited = True"

section \<open>Curriculum tree and portal state (MoeFlavorTrainingPortal)\<close>

record Lesson =
  l_id :: string
  l_number :: real
  l_title :: string
  duration :: string
  contentType :: string

record Quiz =
  q_id :: string
  q_title :: string
  passingScore :: real
  required :: bool

record Module =
  m_id :: string
  m_number :: real
  m_title :: string
  m_description :: string
  icon :: string
  lessons :: "Lesson list"
  quiz :: "Quiz option"

record Phase =
  p_id :: string
  p_number :: real
  p_title :: string
  p_description :: string
  modules :: "Module list"

record portal_state =
  phases :: "Phase list"
  completedLessons :: "string set"
  completedQuizzes :: "string set"
  currentLesson :: "string option"
  currentQuiz :: "string option"

definition handleLessonComplete :: "portal_state \<Rightarrow> string \<Rightarrow> portal_state" where
  "handleLessonComplete s lessonId =
     s\<lparr>completedLessons := insert lessonId (completedLessons s), currentLesson := None\<rparr>"

definition handleQuizComplete :: "portal_state \<Rightarrow> string \<Rightarrow> bool \<Rightarrow> portal_state" where
  "handleQuizComplete s quizId passed =
     (let s1 = (if passed then s\<lparr>completedQuizzes := insert quizId (completedQuizzes s)\<rparr>
                else s)
      in s1\<lparr>currentQuiz := None\<rparr>)"

definition isLessonUnlocked :: "portal_state \<Rightarrow> Lesson \<Rightarrow> Module \<Rightarrow> js_error + bool" where
  "isLessonUnlocked s lesson m =
     (let lessonIndex = findIndex (\<lambda>l. l_id l = l_id lesson) (lessons m) in
      if lessonIndex = 0 then Inr True
      else (case at_index (lessons m) (lessonIndex - 1) of
              None \<Rightarrow> Inl TypeError
            | Some previousLesson \<Rightarrow> Inr (l_id previousLesson \<in> completedLessons s)))"

definition isQuizUnlocked :: "portal_state \<Rightarrow> Module \<Rightarrow> bool" where
  "isQuizUnlocked s m = list_all (\<lambda>lesson. l_id lesson \<in> completedLessons s) (lessons m)"

definition isModuleComplete :: "portal_state \<Rightarrow> Module \<Rightarrow> bool" where
  "isModuleComplete s m =
     (let allLessonsComplete = list_all (\<lambda>l. l_id l \<in> completedLessons s) (lessons m);
          quizComplete = (case quiz m of None \<Rightarrow> True
                          | Some q \<Rightarrow> q_id q \<in> completedQuizzes s)
      in allLessonsComplete \<and> quizComplete)"

text \<open>The body of the inner \<open>forEach\<close> of \<open>getTotalProgress\<close>, acting on the two
  counters \<open>(totalItems, completedItems)\<close>.\<close>

definition count_module :: "portal_state \<Rightarrow> Module \<Rightarrow> nat \<times> nat \<Rightarrow> nat \<times> nat" where
  "count_module s m acc =
     (case acc of (totalItems, completedItems) \<Rightarrow>
        (let totalItems1 = totalItems + length (lessons m);
             totalItems2 = (if quiz m \<noteq> None then totalItems1 + 1 else totalItems1);
             completedItems1 =
               fold (\<lambda>lesson c. if l_id lesson \<in> completedLessons s then c + 1 else c)
                 (lessons m) completedItems;
             completedItems2 =
               (case quiz m of
                  None \<Rightarrow> completedItems1
                | Some q \<Rightarrow> if q_id q \<in> completedQuizzes s then completedItems1 + 1
                            else completedItems1)
         in (totalItems2, completedItems2)))"

definition count_items :: "portal_state \<Rightarrow> nat \<times> nat" where
  "count_items s = fold (\<lambda>phase acc. fold (count_module s) (modules phase) acc) (phases s) (0, 0)"

definition getTotalProgress :: "portal_state \<Rightarrow> number" where
  "getTotalProgress s =
     (case count_items s of (totalItems, completedItems) \<Rightarrow>
        if totalItems > 0 then times100 (js_divide completedItems totalItems) else Num 0)"

text \<open>The completion events the viewers report to the portal: \<open>LessonViewer\<close> calls
  \<open>onComplete\<close>, \<open>QuizViewer\<close> calls \<open>onComplete(passed)\<close>.\<close>

datatype completion_event = LessonCompleted string | QuizFinished string bool

fun apply_event :: "portal_state \<Rightarrow> completion_event \<Rightarrow> portal_state" where
  "apply_event s (LessonCompleted lessonId) = handleLessonComplete s lessonId"
| "apply_event s (QuizFinished quizId passed) = handleQuizComplete s quizId passed"

text \<open>The quantities the specification names for \<open>totalProgress()\<close>: all modules of the
  tree, the number of items, and the number of completed items.\<close>

definition all_modules :: "portal_state \<Rightarrow> Module list" where
  "all_modules s = concat (map modules (phases s))"

definition spec_total :: "portal_state \<Rightarrow> nat" where
  "spec_total s =
     sum_list (map (\<lambda>m. length (lessons m) + (if quiz m = None then 0 else 1)) (all_modules s))"

definition spec_done :: "portal_state \<Rightarrow> nat" where
  "spec_done s =
     length (filter (\<lambda>l. l_id l \<in> completedLessons s) (concat (map lessons (all_modules s))))
     + length (filter (\<lambda>m. case quiz m of None \<Rightarrow> False
                            | Some q \<Rightarrow> q_id q \<in> completedQuizzes s) (all_modules s))"

text \<open>The lesson ids and the quiz ids of the tree, in order.\<close>

definition tree_lesson_ids :: "portal_state \<Rightarrow> string list" where
  "tree_lesson_ids s = map l_id (concat (map lessons (all_modules s)))"

definition tree_quiz_ids :: "portal_state \<Rightarrow> string list" where
  "tree_quiz_ids s =
     map q_id (concat (map (\<lambda>m. case quiz m of None \<Rightarrow> [] | Some q \<Rightarrow> [q]) (all_modules s)))"

section \<open>Quiz session (QuizViewer)\<close>

record quiz_options =
  optA :: string
  optB :: string
  optC :: string
  optD :: string

record QuizQuestion =
  qq_id :: string
  qq_number :: real
  question :: string
  options :: quiz_options
  correctAnswer :: string

text \<open>The viewer's state. The field \<open>answers\<close> holds the own properties of the
  \<open>answers\<close> object; the code reads it with \<open>answers[q.id]\<close>, modelled by
  \<open>get_property\<close>.\<close>

record quiz_state =
  questions :: "QuizQuestion list"
  loading :: bool
  error :: "string option"
  currentQuestionIndex :: nat
  answers :: "string \<rightharpoonup> string"
  showResults :: bool
  score :: number

text \<open>The state of a freshly mounted viewer (the \<open>useState\<close> initial values).\<close>

definition quiz_initial :: quiz_state where
  "quiz_initial =
     \<lparr>questions = [], loading = True, error = None, currentQuestionIndex = 0,
      answers = Map.empty, showResults = False, score = Num 0\<rparr>"

text \<open>What the quiz endpoint's fetch delivers: the \<open>fetch\<close> or \<open>response.json()\<close>
  throws (network failure, malformed JSON), or a JSON object arrives, of which the
  viewer reads the fields \<open>error\<close> and \<open>questions\<close>; either may be absent.\<close>

record quiz_data =
  data_error :: "string option"
  data_questions :: "QuizQuestion list option"

datatype fetch_result = FetchThrows | FetchJson quiz_data

definition fetchQuiz :: "fetch_result \<Rightarrow> quiz_state \<Rightarrow> quiz_state" where
  "fetchQuiz r st =
     (let st1 = st\<lparr>loading := True\<rparr>;
          caught = st1\<lparr>error := Some ''Failed to load quiz.'', loading := False\<rparr>
      in case r of
           FetchThrows \<Rightarrow> caught
         | FetchJson data \<Rightarrow>
             if truthy (data_error data) then caught
             else st1\<lparr>questions := (case data_questions data of None \<Rightarrow> [] | Some qs \<Rightarrow> qs),
                      loading := False\<rparr>)"

definition handleAnswer :: "quiz_state \<Rightarrow> string \<Rightarrow> string \<Rightarrow> quiz_state" where
  "handleAnswer st questionId answer = st\<lparr>answers := (answers st)(questionId \<mapsto> answer)\<rparr>"

definition handleSubmit :: "quiz_state \<Rightarrow> quiz_state" where
  "handleSubmit st =
     (let correct =
            fold (\<lambda>q c. if get_property (answers st) (qq_id q) = Str (correctAnswer q)
                        then c + 1 else c)
              (questions st) (0::nat);
          percentage = times100 (js_divide correct (length (questions st)))
      in st\<lparr>score := percentage, showResults := True\<rparr>)"

text \<open>\<open>handleFinish\<close> calls \<open>onComplete(passed)\<close>; the model returns the argument of
  that call.\<close>

definition handleFinish :: "quiz_state \<Rightarrow> bool" where
  "handleFinish st = (let passed = number_ge (score st) 70 in passed)"

definition allAnswered :: "quiz_state \<Rightarrow> bool" where
  "allAnswered st =
     list_all (\<lambda>q. value_truthy (get_property (answers st) (qq_id q))) (questions st)"

text \<open>The portal mounts the viewer for \<open>currentQuiz\<close> with
  \<open>onComplete = (passed) => handleQuizComplete(currentQuiz, passed)\<close>; nothing else of
  the quiz record (in particular not \<open>passingScore\<close>) reaches the viewer.\<close>

definition finishQuiz :: "portal_state \<Rightarrow> quiz_state \<Rightarrow> portal_state" where
  "finishQuiz s st =
     (case currentQuiz s of
        None \<Rightarrow> s
      | Some quizId \<Rightarrow> handleQuizComplete s quizId (handleFinish st))"

text \<open>The click handler of a module's quiz card.\<close>

definition openQuiz :: "portal_state \<Rightarrow> Module \<Rightarrow> portal_state" where
  "openQuiz s m =
     (case quiz m of
        None \<Rightarrow> s
      | Some q \<Rightarrow>
          if isQuizUnlocked s m \<and> q_id q \<notin> completedQuizzes s
          then s\<lparr>currentQuiz := Some (q_id q)\<rparr> else s)"

text \<open>What the viewer renders. Evaluating the quiz view reads
  \<open>currentQuestion.question\<close>, which throws a \<open>TypeError\<close> when
  \<open>questions[currentQuestionIndex]\<close> is \<open>undefined\<close>.\<close>

datatype quiz_view =
    LoadingView
  | FailedToLoadView string
  | ResultsView bool number
  | QuestionView QuizQuestion bool

definition render :: "quiz_state \<Rightarrow> js_error + quiz_view" where
  "render st =
     (if loading st then Inr LoadingView
      else if truthy (error st) then Inr (FailedToLoadView (the (error st)))
      else
        (let currentQuestion = at_index (questions st) (int (currentQuestionIndex st));
             allAnswered = allAnswered st
         in if showResults st then
              (let passed = number_ge (score st) 70 in Inr (ResultsView passed (score st)))
            else (case currentQuestion of
                    None \<Rightarrow> Inl TypeError
                  | Some q \<Rightarrow> Inr (QuestionView q allAnswered))))"

section \<open>Landing scene (PixelParkLanding)\<close>

record Position =
  pos_x :: real
  pos_y :: real

record rect =
  rect_x :: real
  rect_y :: real
  width :: real
  height :: real

datatype facing = FaceLeft | FaceRight | FaceUp | FaceDown

text \<open>The constants the component closes over: the obstacle list and the portal zone.\<close>

record scene =
  obstacles :: "rect list"
  portalZone :: rect

definition park :: scene where
  "park =
     \<lparr>obstacles =
        [\<lparr>rect_x = 60 - 30, rect_y = 142, width = 60, height = 100\<rparr>,
         \<lparr>rect_x = 546 - 30, rect_y = 142, width = 60, height = 100\<rparr>,
         \<lparr>rect_x = 170, rect_y = 212, width = 54, height = 40\<rparr>,
         \<lparr>rect_x = 486, rect_y = 212, width = 54, height = 40\<rparr>,
         \<lparr>rect_x = 230, rect_y = 213, width = 90, height = 40\<rparr>,
         \<lparr>rect_x = 310, rect_y = 213, width = 85, height = 40\<rparr>,
         \<lparr>rect_x = 546, rect_y = 213, width = 103, height = 40\<rparr>],
      portalZone = \<lparr>rect_x = 280, rect_y = 180, width = 66, height = 80\<rparr>\<rparr>"

record scene_state =
  characterPos :: Position
  direction :: facing
  isWalking :: bool
  showPrompt :: bool

definition scene_initial :: scene_state where
  "scene_initial =
     \<lparr>characterPos = \<lparr>pos_x = 300, pos_y = 200\<rparr>, direction = FaceDown,
      isWalking = False, showPrompt = False\<rparr>"

text \<open>The obstacle loop of \<open>checkCollision\<close>: \<open>return true\<close> at the first rectangle
  the box overlaps.\<close>

fun hits_obstacle :: "rect \<Rightarrow> rect list \<Rightarrow> bool" where
  "hits_obstacle characterBox [] = False"
| "hits_obstacle characterBox (obstacle # rest) =
     (if rect_x characterBox < rect_x obstacle + width obstacle \<and>
         rect_x characterBox + width characterBox > rect_x obstacle \<and>
         rect_y characterBox < rect_y obstacle + height obstacle \<and>
         rect_y characterBox + height characterBox > rect_y obstacle
      then True else hits_obstacle characterBox rest)"

definition checkCollision :: "scene \<Rightarrow> real \<Rightarrow> real \<Rightarrow> bool" where
  "checkCollision sc newX newY =
     (let characterBox = \<lparr>rect_x = newX - 8, rect_y = newY - 16, width = 16, height = 24\<rparr>
      in if newX < 20 \<or> newX > 606 \<or> newY < 100 \<or> newY > 240 then True
         else hits_obstacle characterBox (obstacles sc))"

definition checkPortalZone :: "scene \<Rightarrow> real \<Rightarrow> real \<Rightarrow> bool" where
  "checkPortalZone sc x y =
     (x > rect_x (portalZone sc) \<and>
      x < rect_x (portalZone sc) + width (portalZone sc) \<and>
      y > rect_y (portalZone sc) \<and>
      y < rect_y (portalZone sc) + height (portalZone sc))"

text \<open>The first half of \<open>moveCharacter\<close>: the four key tests, in the source's order,
  updating \<open>(newX, newY, moved, newDirection)\<close>.\<close>

definition candidate :: "string set \<Rightarrow> scene_state \<Rightarrow> real \<times> real \<times> bool \<times> facing" where
  "candidate keysPressed s =
     (let speed = 2;
          v0 = (pos_x (characterPos s), pos_y (characterPos s), False, direction s);
          v1 = (case v0 of (newX, newY, moved, newDirection) \<Rightarrow>
                  if ''ArrowUp'' \<in> keysPressed \<or> ''w'' \<in> keysPressed
                  then (newX, newY - speed, True, FaceUp) else v0);
          v2 = (case v1 of (newX, newY, moved, newDirection) \<Rightarrow>
                  if ''ArrowDown'' \<in> keysPressed \<or> ''s'' \<in> keysPressed
                  then (newX, newY + speed, True, FaceDown) else v1);
          v3 = (case v2 of (newX, newY, moved, newDirection) \<Rightarrow>
                  if ''ArrowLeft'' \<in> keysPressed \<or> ''a'' \<in> keysPressed
                  then (newX - speed, newY, True, FaceLeft) else v2);
          v4 = (case v3 of (newX, newY, moved, newDirection) \<Rightarrow>
                  if ''ArrowRight'' \<in> keysPressed \<or> ''d'' \<in> keysPressed
                  then (newX + speed, newY, True, FaceRight) else v3)
      in v4)"

text \<open>One animation tick: \<open>moveCharacter\<close> on the current state and held keys.\<close>

definition moveCharacter :: "scene \<Rightarrow> string set \<Rightarrow> scene_state \<Rightarrow> scene_state" where
  "moveCharacter sc keysPressed s =
     (case candidate keysPressed s of (newX, newY, moved, newDirection) \<Rightarrow>
        if moved then
          (let s1 = (if \<not> checkCollision sc newX newY
                     then s\<lparr>characterPos := \<lparr>pos_x = newX, pos_y = newY\<rparr>,
                            direction := newDirection, isWalking := True\<rparr>
                     else s\<lparr>isWalking := False\<rparr>)
           in s1\<lparr>showPrompt := checkPortalZone sc newX newY\<rparr>)
        else s\<lparr>isWalking := False\<rparr>)"

text \<open>The acceptance condition as the specification words it: the actor's box
  \<open>[x - 8, x + 8] \<times> [y - 16, y + 8]\<close> against an obstacle (strict overlap on both
  axes), and the permitted bounds of the raw point.\<close>

definition box_overlaps :: "real \<Rightarrow> real \<Rightarrow> rect \<Rightarrow> bool" where
  "box_overlaps x y ob =
     (x - 8 < rect_x ob + width ob \<and> rect_x ob < x + 8 \<and>
      y - 16 < rect_y ob + height ob \<and> rect_y ob < y + 8)"

definition within_bounds :: "real \<Rightarrow> real \<Rightarrow> bool" where
  "within_bounds x y = (20 \<le> x \<and> x \<le> 606 \<and> 100 \<le> y \<and> y \<le> 240)"

definition move_permitted :: "scene \<Rightarrow> real \<Rightarrow> real \<Rightarrow> bool" where
  "move_permitted sc x y =
     ((\<forall>ob \<in> set (obstacles sc). \<not> box_overlaps x y ob) \<and> within_bounds x y)"

definition key_held :: "string set \<Rightarrow> bool" where
  "key_held keysPressed =
     (''ArrowUp'' \<in> keysPressed \<or> ''w'' \<in> keysPressed \<or>
      ''ArrowDown'' \<in> keysPressed \<or> ''s'' \<in> keysPressed \<or>
      ''ArrowLeft'' \<in> keysPressed \<or> ''a'' \<in> keysPressed \<or>
      ''ArrowRight'' \<in> keysPressed \<or> ''d'' \<in> keysPressed)"

text \<open>The number of correctly answered questions of a session.\<close>

definition correct_count :: "quiz_state \<Rightarrow> nat" where
  "correct_count st =
     length (filter (\<lambda>q. get_property (answers st) (qq_id q) = Str (correctAnswer q))
       (questions st))"

section \<open>Example data\<close>

text \<open>The scenario of the specification: a module with lessons \<open>L1, L2\<close> (and \<open>L3\<close>) and
  a quiz \<open>Q\<close> with \<open>passingScore = 70\<close>; a four-question quiz.\<close>

definition mk_lesson :: "string \<Rightarrow> Lesson" where
  "mk_lesson i = \<lparr>l_id = i, l_number = 1, l_title = [], duration = [], contentType = []\<rparr>"

definition mk_quiz :: "string \<Rightarrow> real \<Rightarrow> Quiz" where
  "mk_quiz i p = \<lparr>q_id = i, q_title = [], passingScore = p, required = True\<rparr>"

definition mk_module :: "Lesson list \<Rightarrow> Quiz option \<Rightarrow> Module" where
  "mk_module ls q =
     \<lparr>m_id = ''M1'', m_number = 1, m_title = [], m_description = [], icon = [],
      lessons = ls, quiz = q\<rparr>"

definition mk_portal :: "Module list \<Rightarrow> string set \<Rightarrow> string set \<Rightarrow> portal_state" where
  "mk_portal ms cl cq =
     \<lparr>phases = [\<lparr>p_id = ''P1'', p_number = 1, p_title = [], p_description = [], modules = ms\<rparr>],
      completedLessons = cl, completedQuizzes = cq, currentLesson = None, currentQuiz = None\<rparr>"

definition module12 :: Module where
  "module12 = mk_module [mk_lesson ''L1'', mk_lesson ''L2''] (Some (mk_quiz ''Q'' 70))"

definition module123 :: Module where
  "module123 = mk_module [mk_lesson ''L1'', mk_lesson ''L2'', mk_lesson ''L3''] (Some (mk_quiz ''Q'' 70))"

text \<open>A module in which the third lesson carries the id of the first.\<close>

definition module_dup :: Module where
  "module_dup =
     mk_module [mk_lesson ''L1'', mk_lesson ''L2'', (mk_lesson ''L1'')\<lparr>l_number := 3\<rparr>] None"

definition mk_question :: "string \<Rightarrow> string \<Rightarrow> QuizQuestion" where
  "mk_question i c =
     \<lparr>qq_id = i, qq_number = 1, question = ''?'',
      options = \<lparr>optA = ''a'', optB = ''b'', optC = ''c'', optD = ''d''\<rparr>,
      correctAnswer = c\<rparr>"

definition quiz4 :: "QuizQuestion list" where
  "quiz4 = [mk_question ''q1'' ''A'', mk_question ''q2'' ''B'',
            mk_question ''q3'' ''C'', mk_question ''q4'' ''D'']"

definition answers3 :: "string \<rightharpoonup> string" where
  "answers3 = [''q1'' \<mapsto> ''A'', ''q2'' \<mapsto> ''B'', ''q3'' \<mapsto> ''C'', ''q4'' \<mapsto> ''A'']"

definition answers2 :: "string \<rightharpoonup> string" where
  "answers2 = [''q1'' \<mapsto> ''A'', ''q2'' \<mapsto> ''B'', ''q3'' \<mapsto> ''A'', ''q4'' \<mapsto> ''A'']"

definition session4 :: "(string \<rightharpoonup> string) \<Rightarrow> quiz_state" where
  "session4 ans = quiz_initial\<lparr>questions := quiz4, loading := False, answers := ans\<rparr>"

text \<open>A quiz of twenty questions, each with correct answer \<open>A\<close>, and a complete answer
  map that answers the first eleven with \<open>A\<close> and the other nine with \<open>B\<close>.\<close>

definition quiz20 :: "QuizQuestion list" where
  "quiz20 =
     map (\<lambda>i. mk_question i ''A'')
       [''q01'', ''q02'', ''q03'', ''q04'', ''q05'', ''q06'', ''q07'', ''q08'', ''q09'', ''q10'',
        ''q11'', ''q12'', ''q13'', ''q14'', ''q15'', ''q16'', ''q17'', ''q18'', ''q19'', ''q20'']"

definition answers11 :: "string \<rightharpoonup> string" where
  "answers11 =
     (\<lambda>k. if k \<in> {''q01'', ''q02'', ''q03'', ''q04'', ''q05'', ''q06'', ''q07'', ''q08'',
                    ''q09'', ''q10'', ''q11''} then Some ''A''
          else if k \<in> {''q12'', ''q13'', ''q14'', ''q15'', ''q16'', ''q17'', ''q18'', ''q19'',
                         ''q20''} then Some ''B''
          else None)"

definition session20 :: quiz_state where
  "session20 = quiz_initial\<lparr>questions := quiz20, loading := False, answers := answers11\<rparr>"

text \<open>Scene states, and the scene after a sequence of ticks, each with its set of
  held keys.\<close>

definition scene_at :: "real \<Rightarrow> real \<Rightarrow> facing \<Rightarrow> bool \<Rightarrow> bool \<Rightarrow> scene_state" where
  "scene_at x y d w p =
     \<lparr>characterPos = \<lparr>pos_x = x, pos_y = y\<rparr>, direction = d, isWalking = w, showPrompt = p\<rparr>"

definition ticks :: "scene \<Rightarrow> string set list \<Rightarrow> scene_state \<Rightarrow> scene_state" where
  "ticks sc keyss s = foldl (\<lambda>st keysPressed. moveCharacter sc keysPressed st) s keyss"

definition walk_to_zone_edge :: "string set list" where
  "walk_to_zone_edge =
     [{''ArrowLeft''}, {''ArrowLeft''}, {''ArrowLeft''}, {''ArrowLeft''}, {''ArrowLeft''},
      {''ArrowLeft''}, {''ArrowLeft''}, {''ArrowLeft''}, {''ArrowLeft''},
      {''ArrowDown''}, {''ArrowDown''}]"

section \<open>Auxiliary facts\<close>

subsection \<open>Rounding to binary64\<close>

lemma expo_bounds:
  "0 < x \<Longrightarrow> 2 powi expo x \<le> x \<and> x < 2 powi (expo x + 1)"
proof (induction x rule: expo.induct)
  case (1 x)
  show ?case
  proof (cases "2 \<le> x")
    case True
    with "1.prems" have e: "expo x = expo (x / 2) + 1" by (subst expo.simps) simp
    from "1.IH"(1) True "1.prems"
    have "2 powi expo (x / 2) \<le> x / 2 \<and> x / 2 < 2 powi (expo (x / 2) + 1)" by simp
    then show ?thesis by (simp add: e power_int_add)
  next
    case False
    show ?thesis
    proof (cases "x < 1")
      case True
      with False "1.prems" have e: "expo x = expo (x * 2) - 1" by (subst expo.simps) simp
      from "1.IH"(2) True False "1.prems"
      have "2 powi expo (x * 2) \<le> x * 2 \<and> x * 2 < 2 powi (expo (x * 2) + 1)" by simp
      then show ?thesis by (simp add: e power_int_diff power_int_add)
    next
      case nl: False
      with False "1.prems" have e: "expo x = 0" by (subst expo.simps) simp
      from False nl show ?thesis by (simp add: e)
    qed
  qed
qed

lemma expo_unique:
  assumes "2 powi e \<le> x" and "x < 2 powi (e + 1)"
  shows "expo x = e"
proof -
  have p: "0 < (2::real) powi e" by simp
  with assms have x0: "0 < x" by linarith
  from expo_bounds[OF x0] have b: "2 powi expo x \<le> x" "x < 2 powi (expo x + 1)" by simp_all
  have "\<not> expo x < e"
  proof
    assume "expo x < e"
    then have "expo x + 1 \<le> e" by simp
    then have "(2::real) powi (expo x + 1) \<le> 2 powi e" by (intro power_int_increasing) simp_all
    with b assms show False by linarith
  qed
  moreover have "\<not> e < expo x"
  proof
    assume "e < expo x"
    then have "e + 1 \<le> expo x" by simp
    then have "(2::real) powi (e + 1) \<le> 2 powi expo x" by (intro power_int_increasing) simp_all
    with b assms show False by linarith
  qed
  ultimately show ?thesis by simp
qed

lemma expo_mono:
  assumes "0 < x" and "x \<le> y"
  shows "expo x \<le> expo y"
proof (rule ccontr)
  assume "\<not> expo x \<le> expo y"
  then have "expo y + 1 \<le> expo x" by simp
  then have "(2::real) powi (expo y + 1) \<le> 2 powi expo x" by (intro power_int_increasing) simp_all
  moreover from assms have "0 < y" by simp
  ultimately show False using expo_bounds[OF assms(1)] expo_bounds[OF \<open>0 < y\<close>] assms(2) by linarith
qed

lemma round_even_int: "round_even (of_int k) = k"
  by (simp add: round_even_def)

lemma round_even_range: "\<lfloor>m\<rfloor> \<le> round_even m \<and> round_even m \<le> \<lfloor>m\<rfloor> + 1"
  by (simp add: round_even_def Let_def)

lemma round_even_mono:
  assumes "a \<le> b"
  shows "round_even a \<le> round_even b"
proof (cases "\<lfloor>a\<rfloor> = \<lfloor>b\<rfloor>")
  case True
  have "a - of_int \<lfloor>b\<rfloor> \<le> b - of_int \<lfloor>b\<rfloor>" using assms by simp
  then show ?thesis unfolding round_even_def Let_def True by auto
next
  case False
  have "\<lfloor>a\<rfloor> \<le> \<lfloor>b\<rfloor>" using assms by (rule floor_mono)
  with False have "\<lfloor>a\<rfloor> + 1 \<le> \<lfloor>b\<rfloor>" by simp
  with round_even_range[of a] round_even_range[of b] show ?thesis by linarith
qed

lemma round_even_error: "\<bar>of_int (round_even m) - m\<bar> \<le> 1 / 2"
proof -
  define f where "f = \<lfloor>m\<rfloor>"
  have b: "of_int f \<le> m" "m < of_int f + 1" unfolding f_def by linarith+
  have r: "round_even m =
             (if m - of_int f < 1 / 2 then f else if 1 / 2 < m - of_int f then f + 1
              else if even f then f else f + 1)"
    by (simp add: round_even_def Let_def f_def)
  show ?thesis unfolding r using b by (auto simp: abs_if)
qed

lemma round64_pos:
  "0 < x \<Longrightarrow> round64 x = of_int (round_even (x / 2 powi (expo x - 52))) * 2 powi (expo x - 52)"
  by (simp add: round64_def Let_def)

lemma round64_zero: "round64 0 = 0"
  by (simp add: round64_def)

lemma scaled_bounds:
  assumes "0 < x"
  shows "2 ^ 52 \<le> x / 2 powi (expo x - 52) \<and> x / 2 powi (expo x - 52) < 2 ^ 53"
proof -
  have u: "0 < (2::real) powi (expo x - 52)" by simp
  have a: "(2::real) powi expo x = 2 ^ 52 * 2 powi (expo x - 52)"
    by (simp add: power_int_diff)
  have b: "(2::real) powi (expo x + 1) = 2 ^ 53 * 2 powi (expo x - 52)"
    by (simp add: power_int_diff power_int_add)
  from expo_bounds[OF assms] show ?thesis
    unfolding a b using u by (simp add: pos_le_divide_eq pos_divide_less_eq)
qed

lemma round64_bounds:
  assumes "0 < x"
  shows "2 powi expo x \<le> round64 x \<and> round64 x \<le> 2 powi (expo x + 1)"
proof -
  let ?u = "(2::real) powi (expo x - 52)"
  let ?m = "x / ?u"
  have u: "0 < ?u" by simp
  from scaled_bounds[OF assms] have m: "2 ^ 52 \<le> ?m" "?m \<le> 2 ^ 53" by simp_all
  have "round_even (of_int (2 ^ 52)) \<le> round_even ?m"
    by (rule round_even_mono) (use m in simp)
  then have lo: "(2::int) ^ 52 \<le> round_even ?m" by (simp only: round_even_int)
  have "round_even ?m \<le> round_even (of_int (2 ^ 53))"
    by (rule round_even_mono) (use m in simp)
  then have hi: "round_even ?m \<le> (2::int) ^ 53" by (simp only: round_even_int)
  from lo have "real_of_int (2 ^ 52) \<le> of_int (round_even ?m)"
    by (rule of_int_le_iff [THEN iffD2])
  then have lo': "(2::real) ^ 52 \<le> of_int (round_even ?m)" by simp
  from hi have "real_of_int (round_even ?m) \<le> of_int (2 ^ 53)"
    by (rule of_int_le_iff [THEN iffD2])
  then have hi': "of_int (round_even ?m) \<le> (2::real) ^ 53" by simp
  have a: "(2::real) powi expo x = 2 ^ 52 * ?u" by (simp add: power_int_diff)
  have b: "(2::real) powi (expo x + 1) = 2 ^ 53 * ?u" by (simp add: power_int_diff power_int_add)
  have "2 ^ 52 * ?u \<le> of_int (round_even ?m) * ?u" using lo' u by (intro mult_right_mono) simp_all
  moreover have "of_int (round_even ?m) * ?u \<le> 2 ^ 53 * ?u" using hi' u by (intro mult_right_mono) simp_all
  ultimately show ?thesis unfolding a b round64_pos[OF assms] by simp
qed

lemma round64_nonneg: "0 \<le> x \<Longrightarrow> 0 \<le> round64 x"
proof (cases "x = 0")
  case True
  then show ?thesis by (simp add: round64_zero)
next
  case False
  assume "0 \<le> x"
  with False have x: "0 < x" by simp
  have "0 < (2::real) powi expo x" by simp
  with round64_bounds[OF x] show ?thesis by linarith
qed

lemma round64_mono:
  assumes "0 \<le> x" and "x \<le> y"
  shows "round64 x \<le> round64 y"
proof (cases "x = 0")
  case True
  from assms have "0 \<le> y" by simp
  then show ?thesis using True by (simp add: round64_zero round64_nonneg)
next
  case False
  with assms have x: "0 < x" and y: "0 < y" by simp_all
  have le: "expo x \<le> expo y" using x assms(2) by (rule expo_mono)
  show ?thesis
  proof (cases "expo x = expo y")
    case True
    let ?u = "(2::real) powi (expo y - 52)"
    have u: "0 < ?u" by simp
    have "x / ?u \<le> y / ?u" using assms(2) u by (simp add: divide_right_mono)
    then have "round_even (x / ?u) \<le> round_even (y / ?u)" by (rule round_even_mono)
    then have "(of_int (round_even (x / ?u)) :: real) \<le> of_int (round_even (y / ?u))" by simp
    then have "of_int (round_even (x / ?u)) * ?u \<le> of_int (round_even (y / ?u)) * ?u"
      using u by (intro mult_right_mono) simp_all
    then show ?thesis by (simp add: round64_pos[OF x] round64_pos[OF y] True)
  next
    case False
    with le have "expo x + 1 \<le> expo y" by simp
    then have "(2::real) powi (expo x + 1) \<le> 2 powi expo y"
      by (intro power_int_increasing) simp_all
    with round64_bounds[OF x] round64_bounds[OF y] show ?thesis by linarith
  qed
qed

lemma round64_error:
  assumes "0 < x"
  shows "\<bar>round64 x - x\<bar> \<le> x / 2 ^ 53"
proof -
  let ?u = "(2::real) powi (expo x - 52)"
  let ?m = "x / ?u"
  have u: "0 < ?u" by simp
  have xm: "x = ?m * ?u" using u by simp
  have "round64 x - x = (of_int (round_even ?m) - ?m) * ?u"
    by (simp add: round64_pos[OF assms] algebra_simps)
  then have "\<bar>round64 x - x\<bar> = \<bar>of_int (round_even ?m) - ?m\<bar> * ?u"
    using u by (simp add: abs_mult)
  also have "\<dots> \<le> 1 / 2 * ?u"
    using round_even_error[of ?m] u by (intro mult_right_mono) simp_all
  also have "\<dots> = 2 powi expo x / 2 ^ 53"
    by (simp add: power_int_diff)
  also have "\<dots> \<le> x / 2 ^ 53"
    using expo_bounds[OF assms] by (simp add: divide_right_mono)
  finally show ?thesis .
qed

lemma round64_exact:
  assumes "0 < x" and "x / 2 powi (expo x - 52) = of_int k"
  shows "round64 x = x"
proof -
  have "round64 x = of_int k * 2 powi (expo x - 52)"
    by (simp add: round64_pos[OF assms(1)] assms(2) round_even_int)
  also have "\<dots> = x" using assms(2)[symmetric] by simp
  finally show ?thesis .
qed

lemma round64_seven_tenths: "round64 (7 / 10) = 3152519739159347 / 2 ^ 52"
  by (simp add: round64_def round_even_def expo.simps)

lemma round64_seventy: "round64 (3152519739159347 / 2 ^ 52 * 100) = 70"
  by (simp add: round64_def round_even_def expo.simps)

lemma round64_below_seven_tenths:
  "round64 (3152519739159347 / 2 ^ 52 - 3 / 2 ^ 55) = 6305039478318693 / 2 ^ 53"
  by (simp add: round64_def round_even_def expo.simps)

lemma round64_below_seventy:
  "round64 (6305039478318693 / 2 ^ 53 * 100) = 4925812092436479 / 2 ^ 46"
  by (simp add: round64_def round_even_def expo.simps)

lemma percent_threshold:
  fixes c n :: nat
  assumes "0 < n" and "n < 2 ^ 32"
  shows "(70 \<le> round64 (round64 (real c / real n) * 100)) = (70 \<le> 100 * real c / real n)"
proof (cases "7 * n \<le> 10 * c")
  case True
  then have "real (7 * n) \<le> real (10 * c)" by (simp only: of_nat_le_iff)
  then have le: "7 * real n \<le> 10 * real c" by simp
  then have q: "7 / 10 \<le> real c / real n" using assms(1) by (simp add: field_simps)
  have e: "70 \<le> 100 * real c / real n" using le assms(1) by (simp add: field_simps)
  have "round64 (7 / 10) \<le> round64 (real c / real n)" using q by (intro round64_mono) simp_all
  then have "3152519739159347 / 2 ^ 52 \<le> round64 (real c / real n)"
    by (simp only: round64_seven_tenths)
  then have "3152519739159347 / 2 ^ 52 * 100 \<le> round64 (real c / real n) * 100"
    by simp
  then have "round64 (3152519739159347 / 2 ^ 52 * 100) \<le> round64 (round64 (real c / real n) * 100)"
    by (intro round64_mono) simp_all
  then have "70 \<le> round64 (round64 (real c / real n) * 100)" by (simp only: round64_seventy)
  with e show ?thesis by simp
next
  case False
  then have "10 * c + 1 \<le> 7 * n" by simp
  then have "real (10 * c + 1) \<le> real (7 * n)" by (simp only: of_nat_le_iff)
  then have le: "10 * real c + 1 \<le> 7 * real n" by simp
  have n0: "0 < real n" using assms(1) by simp
  have "real n < real (2 ^ 32)" using assms(2) by (simp only: of_nat_less_iff)
  then have nb: "real n < 2 ^ 32" by simp
  have e: "\<not> 70 \<le> 100 * real c / real n" using le n0 by (simp add: field_simps)
  have "real c / real n \<le> 7 / 10 - 1 / (10 * real n)" using le n0 by (simp add: field_simps)
  also have "\<dots> \<le> 7 / 10 - 1 / (10 * 2 ^ 32)"
  proof -
    have "1 / (10 * 2 ^ 32) \<le> 1 / (10 * real n)" using n0 nb by (simp add: field_simps)
    then show ?thesis by simp
  qed
  also have "\<dots> \<le> 3152519739159347 / 2 ^ 52 - 3 / 2 ^ 55" by simp
  finally have q: "real c / real n \<le> 3152519739159347 / 2 ^ 52 - 3 / 2 ^ 55" .
  have "round64 (real c / real n) \<le> round64 (3152519739159347 / 2 ^ 52 - 3 / 2 ^ 55)"
    using q by (intro round64_mono) simp_all
  then have "round64 (real c / real n) \<le> 6305039478318693 / 2 ^ 53"
    by (simp only: round64_below_seven_tenths)
  then have "round64 (real c / real n) * 100 \<le> 6305039478318693 / 2 ^ 53 * 100"
    by simp
  moreover have "0 \<le> round64 (real c / real n) * 100"
    using round64_nonneg [of "real c / real n"] by simp
  ultimately have "round64 (round64 (real c / real n) * 100) \<le> round64 (6305039478318693 / 2 ^ 53 * 100)"
    by (intro round64_mono)
  then have "round64 (round64 (real c / real n) * 100) \<le> 4925812092436479 / 2 ^ 46"
    by (simp only: round64_below_seventy)
  then have "\<not> 70 \<le> round64 (round64 (real c / real n) * 100)" by simp
  with e show ?thesis by simp
qed

lemma percent_error:
  assumes "0 \<le> q"
  shows "\<bar>round64 (round64 q * 100) - 100 * q\<bar> \<le> 100 * q / 2 ^ 51"
proof (cases "q = 0")
  case True
  then show ?thesis by (simp add: round64_zero)
next
  case False
  with assms have q: "0 < q" by simp
  define y where "y = round64 q"
  define z where "z = round64 (y * 100)"
  have "0 < (2::real) powi expo q" by simp
  with round64_bounds [OF q] have y: "0 < y" unfolding y_def by linarith
  have ey: "\<bar>y - q\<bar> \<le> q / 2 ^ 53" unfolding y_def using q by (rule round64_error)
  have y100: "0 < y * 100" using y by simp
  have ez: "\<bar>z - y * 100\<bar> \<le> y * 100 / 2 ^ 53" unfolding z_def using y100 by (rule round64_error)
  have "y - q \<le> \<bar>y - q\<bar>" by (rule abs_ge_self)
  with ey have yq: "y \<le> q + q / 2 ^ 53" by simp
  have "\<bar>z - 100 * q\<bar> = \<bar>(z - y * 100) + 100 * (y - q)\<bar>" by (simp add: algebra_simps)
  also have "\<dots> \<le> \<bar>z - y * 100\<bar> + \<bar>100 * (y - q)\<bar>" by (rule abs_triangle_ineq)
  also have "\<dots> = \<bar>z - y * 100\<bar> + 100 * \<bar>y - q\<bar>" by (simp only: abs_mult abs_numeral)
  also have "\<dots> \<le> y * 100 / 2 ^ 53 + 100 * (q / 2 ^ 53)"
    by (intro add_mono mult_left_mono ez ey) simp
  also have "\<dots> \<le> (q + q / 2 ^ 53) * 100 / 2 ^ 53 + 100 * (q / 2 ^ 53)"
    using yq by (simp add: divide_right_mono)
  also have "\<dots> \<le> 100 * q / 2 ^ 51" using q by (simp add: field_simps)
  finally show ?thesis unfolding z_def y_def .
qed

subsection \<open>Counters, lists and handlers\<close>

lemma findIndex_ge: "- 1 \<le> findIndex P xs"
  by (induction xs) (auto simp: Let_def)

lemma fold_count_if:
  "fold (\<lambda>x c. if P x then c + 1 else c) xs (c::nat) = c + length (filter P xs)"
  by (induction xs arbitrary: c) auto

lemma count_module_eq:
  "count_module s m (t, c) =
     (t + length (lessons m) + (if quiz m = None then 0 else 1),
      c + length (filter (\<lambda>l. l_id l \<in> completedLessons s) (lessons m))
        + (if (case quiz m of None \<Rightarrow> False | Some q \<Rightarrow> q_id q \<in> completedQuizzes s) then 1 else 0))"
  by (simp add: count_module_def fold_count_if Let_def split: option.splits)

lemma fold_count_module:
  "fold (count_module s) ms (t, c) =
     (t + sum_list (map (\<lambda>m. length (lessons m) + (if quiz m = None then 0 else 1)) ms),
      c + length (filter (\<lambda>l. l_id l \<in> completedLessons s) (concat (map lessons ms)))
        + length (filter (\<lambda>m. case quiz m of None \<Rightarrow> False | Some q \<Rightarrow> q_id q \<in> completedQuizzes s) ms))"
  by (induction ms arbitrary: t c) (simp_all add: count_module_eq)

lemma fold_phases:
  "fold (\<lambda>phase acc. fold (count_module s) (modules phase) acc) ps (t, c) =
     (t + sum_list (map (\<lambda>m. length (lessons m) + (if quiz m = None then 0 else 1)) (concat (map modules ps))),
      c + length (filter (\<lambda>l. l_id l \<in> completedLessons s) (concat (map lessons (concat (map modules ps)))))
        + length (filter (\<lambda>m. case quiz m of None \<Rightarrow> False | Some q \<Rightarrow> q_id q \<in> completedQuizzes s) (concat (map modules ps))))"
  by (induction ps arbitrary: t c) (simp_all add: fold_count_module)

lemma count_items_eq: "count_items s = (spec_total s, spec_done s)"
  by (simp add: count_items_def fold_phases spec_total_def spec_done_def all_modules_def)

lemma getTotalProgress_eq:
  "getTotalProgress s =
     (if spec_total s = 0 then Num 0
      else Num (round64 (round64 (real (spec_done s) / real (spec_total s)) * 100)))"
  by (simp add: getTotalProgress_def count_items_eq js_divide_def)

lemma length_filter_mono:
  "(\<And>x. P x \<Longrightarrow> Q x) \<Longrightarrow> length (filter P xs) \<le> length (filter Q xs)"
  by (induction xs) auto

lemma spec_done_mono:
  assumes "phases s' = phases s" "completedLessons s \<subseteq> completedLessons s'"
    "completedQuizzes s \<subseteq> completedQuizzes s'"
  shows "spec_done s \<le> spec_done s'"
  unfolding spec_done_def all_modules_def using assms
  by (auto intro!: add_mono length_filter_mono split: option.splits)

lemma spec_total_phases: "phases s' = phases s \<Longrightarrow> spec_total s' = spec_total s"
  by (simp add: spec_total_def all_modules_def)

lemma progress_mono:
  assumes "phases s' = phases s" "completedLessons s \<subseteq> completedLessons s'"
    "completedQuizzes s \<subseteq> completedQuizzes s'"
  shows "number_le (getTotalProgress s) (getTotalProgress s')"
proof -
  have d: "spec_done s \<le> spec_done s'" using assms by (rule spec_done_mono)
  have t: "spec_total s' = spec_total s" using assms(1) by (rule spec_total_phases)
  show ?thesis
  proof (cases "spec_total s = 0")
    case True
    then show ?thesis by (simp add: getTotalProgress_eq t)
  next
    case False
    have "real (spec_done s) / real (spec_total s) \<le> real (spec_done s') / real (spec_total s)"
      using d by (simp add: divide_right_mono)
    then have "round64 (real (spec_done s) / real (spec_total s))
                 \<le> round64 (real (spec_done s') / real (spec_total s))"
      by (intro round64_mono) simp_all
    then have "round64 (real (spec_done s) / real (spec_total s)) * 100
                 \<le> round64 (real (spec_done s') / real (spec_total s)) * 100"
      by simp
    moreover have "0 \<le> round64 (real (spec_done s) / real (spec_total s)) * 100"
      using round64_nonneg [of "real (spec_done s) / real (spec_total s)"] by simp
    ultimately have "round64 (round64 (real (spec_done s) / real (spec_total s)) * 100)
                 \<le> round64 (round64 (real (spec_done s') / real (spec_total s)) * 100)"
      by (rule round64_mono [rotated])
    with False show ?thesis by (simp add: getTotalProgress_eq t)
  qed
qed

lemma apply_event_grows:
  "phases (apply_event s e) = phases s \<and>
   completedLessons s \<subseteq> completedLessons (apply_event s e) \<and>
   completedQuizzes s \<subseteq> completedQuizzes (apply_event s e)"
  by (cases e) (auto simp: handleLessonComplete_def handleQuizComplete_def)

lemma foldl_events_grow:
  "phases (foldl apply_event s es) = phases s \<and>
   completedLessons s \<subseteq> completedLessons (foldl apply_event s es) \<and>
   completedQuizzes s \<subseteq> completedQuizzes (foldl apply_event s es)"
proof (induction es arbitrary: s)
  case Nil
  show ?case by simp
next
  case (Cons e es)
  from Cons.IH[of "apply_event s e"] apply_event_grows[of s e]
  show ?case by auto
qed

lemma findIndex_lt: "findIndex P xs < int (length xs)"
  by (induction xs) (auto simp: Let_def)

lemma findIndex_none: "(findIndex P xs = - 1) = (\<forall>x \<in> set xs. \<not> P x)"
proof (induction xs)
  case Nil
  show ?case by simp
next
  case (Cons x xs)
  have "- 1 \<le> findIndex P xs" by (rule findIndex_ge)
  then have "findIndex P xs + 1 \<noteq> - 1" by arith
  with Cons show ?case by (auto simp: Let_def)
qed

lemma findIndex_distinct:
  "distinct (map f xs) \<Longrightarrow> i < length xs \<Longrightarrow> findIndex (\<lambda>l. f l = f (xs ! i)) xs = int i"
proof (induction xs arbitrary: i)
  case Nil
  then show ?case by simp
next
  case (Cons x xs)
  show ?case
  proof (cases i)
    case 0
    then show ?thesis by simp
  next
    case (Suc j)
    with Cons.prems have j: "j < length xs" and d: "distinct (map f xs)"
      and nx: "f x \<notin> f ` set xs" by auto
    from j have "f (xs ! j) \<in> f ` set xs" by simp
    with nx have ne: "f x \<noteq> f (xs ! j)" by metis
    from Cons.IH[OF d j] have "findIndex (\<lambda>l. f l = f (xs ! j)) xs = int j" .
    with ne Suc show ?thesis by (simp add: Let_def)
  qed
qed

lemma isLessonUnlocked_found:
  assumes "findIndex (\<lambda>l. l_id l = l_id lesson) (lessons m) = int i"
  shows "isLessonUnlocked s lesson m =
           Inr (i = 0 \<or> l_id (lessons m ! (i - 1)) \<in> completedLessons s)"
proof (cases i)
  case 0
  with assms show ?thesis by (simp add: isLessonUnlocked_def)
next
  case (Suc j)
  have "findIndex (\<lambda>l. l_id l = l_id lesson) (lessons m) < int (length (lessons m))"
    by (rule findIndex_lt)
  with assms Suc have "j < length (lessons m)" by simp
  with assms Suc show ?thesis
    by (simp add: isLessonUnlocked_def at_index_def)
qed

lemma isLessonUnlocked_missing:
  assumes "findIndex (\<lambda>l. l_id l = l_id lesson) (lessons m) = - 1"
  shows "isLessonUnlocked s lesson m = Inl TypeError"
  using assms by (simp add: isLessonUnlocked_def at_index_def)

lemma handleSubmit_score:
  "score (handleSubmit st) = times100 (js_divide (correct_count st) (length (questions st)))"
  by (simp add: handleSubmit_def correct_count_def fold_count_if Let_def)

lemma handleSubmit_score_nonempty:
  assumes "questions st \<noteq> []"
  shows "score (handleSubmit st) =
           Num (round64 (round64 (real (correct_count st) / real (length (questions st))) * 100))"
  using assms by (simp add: handleSubmit_score js_divide_def)

lemma percent_one_of_two: "round64 (round64 (1 / 2) * 100) = 50"
  by (simp add: round64_def round_even_def expo.simps)

lemma quiz_scenario_two_correct:
  "score (handleSubmit (session4 answers2)) = Num 50
   \<and> \<not> handleFinish (handleSubmit (session4 answers2))"
proof -
  have n: "questions (session4 answers2) \<noteq> []" by (simp add: session4_def quiz4_def)
  have c: "correct_count (session4 answers2) = 2" "length (questions (session4 answers2)) = 4"
    by (simp_all add: session4_def answers2_def quiz4_def mk_question_def quiz_initial_def
        correct_count_def get_property_def)
  have s: "score (handleSubmit (session4 answers2)) = Num 50"
    using handleSubmit_score_nonempty [OF n] by (simp add: c percent_one_of_two)
  show ?thesis by (simp add: s handleFinish_def)
qed

lemma percent_eleven_of_twenty: "round64 (round64 (11 / 20) * 100) = 55 + 1 / 2 ^ 47"
  by (simp add: round64_def round_even_def expo.simps)

lemma percent_one_of_three: "round64 (round64 (1 / 3) * 100) = 2345624805922133 / 2 ^ 46"
  by (simp add: round64_def round_even_def expo.simps)

lemma round64_hundred_thirds: "round64 (100 / 3) = 4691249611844267 / 2 ^ 47"
  by (simp add: round64_def round_even_def expo.simps)

lemma percent_three_of_four: "round64 (round64 (3 / 4) * 100) = 75"
  by (simp add: round64_def round_even_def expo.simps)

lemma percent_all: "round64 (round64 1 * 100) = 100"
  by (simp add: round64_def round_even_def expo.simps)

lemma session20_counts:
  "length (questions session20) = 20 \<and> correct_count session20 = 11 \<and> allAnswered session20"
  by (simp add: session20_def quiz20_def answers11_def quiz_initial_def mk_question_def
      correct_count_def allAnswered_def get_property_def)

lemma allAnswered_inherited_key:
  "allAnswered (quiz_initial\<lparr>questions := [mk_question ''constructor'' ''A''], loading := False\<rparr>)"
  by (simp add: allAnswered_def quiz_initial_def mk_question_def get_property_def
      object_prototype_keys_def)

lemma hits_obstacle_iff:
  "hits_obstacle \<lparr>rect_x = x - 8, rect_y = y - 16, width = 16, height = 24\<rparr> obs =
     (\<exists>ob \<in> set obs. box_overlaps x y ob)"
  by (induction obs) (auto simp: box_overlaps_def)

lemma checkCollision_iff: "(\<not> checkCollision sc x y) = move_permitted sc x y"
  by (auto simp: checkCollision_def move_permitted_def within_bounds_def hits_obstacle_iff)

lemma candidate_moved: "fst (snd (snd (candidate keysPressed s))) = key_held keysPressed"
  by (simp add: candidate_def key_held_def)

lemma walk_reaches_edge:
  "ticks park walk_to_zone_edge scene_initial = scene_at 282 204 FaceDown True True"
  by (simp add: ticks_def walk_to_zone_edge_def scene_initial_def scene_at_def park_def
      moveCharacter_def candidate_def checkCollision_def checkPortalZone_def)

lemma empty_questions_throw:
  assumes "\<not> truthy (data_error d)"
    and "data_questions d = None \<or> data_questions d = Some []"
  shows "render (fetchQuiz (FetchJson d) quiz_initial) = Inl TypeError"
  using assms by (auto simp: render_def fetchQuiz_def quiz_initial_def at_index_def Let_def)

lemma length_filter_key:
  "length (filter (\<lambda>x. f x \<in> A) xs) = length (filter (\<lambda>i. i \<in> A) (map f xs))"
  by (induction xs) auto

lemma length_filter_card:
  assumes "distinct ys"
  shows "length (filter (\<lambda>i. i \<in> A) ys) = card (A \<inter> set ys)"
proof -
  have "distinct (filter (\<lambda>i. i \<in> A) ys)" using assms by simp
  then have "length (filter (\<lambda>i. i \<in> A) ys) = card (set (filter (\<lambda>i. i \<in> A) ys))"
    by (rule distinct_card [symmetric])
  also have "set (filter (\<lambda>i. i \<in> A) ys) = A \<inter> set ys" by auto
  finally show ?thesis .
qed

lemma length_filter_quiz:
  "length (filter (\<lambda>m. case quiz m of None \<Rightarrow> False | Some q \<Rightarrow> q_id q \<in> A) ms) =
   length (filter (\<lambda>q. q_id q \<in> A)
     (concat (map (\<lambda>m. case quiz m of None \<Rightarrow> [] | Some q \<Rightarrow> [q]) ms)))"
  by (induction ms) (auto split: option.splits)

lemma spec_done_card:
  assumes "distinct (tree_lesson_ids s)" and "distinct (tree_quiz_ids s)"
  shows "spec_done s =
           card (completedLessons s \<inter> set (tree_lesson_ids s))
           + card (completedQuizzes s \<inter> set (tree_quiz_ids s))"
proof -
  have l: "length (filter (\<lambda>l. l_id l \<in> completedLessons s) (concat (map lessons (all_modules s))))
             = card (completedLessons s \<inter> set (tree_lesson_ids s))"
    using assms(1) length_filter_card [of "tree_lesson_ids s" "completedLessons s"]
    by (simp add: tree_lesson_ids_def length_filter_key [of l_id])
  have q: "length (filter (\<lambda>m. case quiz m of None \<Rightarrow> False
                              | Some q \<Rightarrow> q_id q \<in> completedQuizzes s) (all_modules s))
             = card (completedQuizzes s \<inter> set (tree_quiz_ids s))"
    using assms(2) length_filter_card [of "tree_quiz_ids s" "completedQuizzes s"]
    by (simp add: tree_quiz_ids_def length_filter_quiz length_filter_key [of q_id])
  show ?thesis by (simp add: spec_done_def l q)
qed

lemma done_le_total_modules:
  fixes ms :: "Module list"
  assumes "\<And>m. Q m \<Longrightarrow> quiz m \<noteq> None"
  shows "length (filter P (concat (map lessons ms))) + length (filter Q ms)
           \<le> sum_list (map (\<lambda>m. length (lessons m) + (if quiz m = None then 0 else 1)) ms)"
proof (induction ms)
  case Nil
  show ?case by simp
next
  case (Cons m ms)
  have 1: "length (filter P (lessons m)) \<le> length (lessons m)" by simp
  have 2: "(if Q m then 1 else 0) \<le> (if quiz m = None then 0 else (1::nat))"
    using assms by auto
  have "length (filter P (concat (map lessons (m # ms)))) + length (filter Q (m # ms))
          = (length (filter P (lessons m)) + (if Q m then 1 else 0))
            + (length (filter P (concat (map lessons ms))) + length (filter Q ms))"
    by simp
  also have "\<dots> \<le> (length (lessons m) + (if quiz m = None then 0 else 1))
            + sum_list (map (\<lambda>m. length (lessons m) + (if quiz m = None then 0 else 1)) ms)"
    using 1 2 Cons.IH by (intro add_mono)
  also have "\<dots> = sum_list (map (\<lambda>m. length (lessons m) + (if quiz m = None then 0 else 1)) (m # ms))"
    by simp
  finally show ?case .
qed

lemma spec_done_le_total: "spec_done s \<le> spec_total s"
  unfolding spec_done_def spec_total_def
  by (rule done_le_total_modules) (simp split: option.splits)

lemma spec_scenario:
  "isLessonUnlocked (mk_portal [module12] {} {}) (mk_lesson ''L1'') module12 = Inr True
   \<and> isLessonUnlocked (mk_portal [module12] {} {}) (mk_lesson ''L2'') module12 = Inr False
   \<and> \<not> isQuizUnlocked (mk_portal [module12] {} {}) module12
   \<and> getTotalProgress (mk_portal [module12] {} {}) = Num 0
   \<and> isQuizUnlocked (mk_portal [module12] {''L1'', ''L2''} {}) module12
   \<and> \<not> isModuleComplete (mk_portal [module12] {''L1'', ''L2''} {}) module12
   \<and> isModuleComplete (mk_portal [module12] {''L1'', ''L2''} {''Q''}) module12"
  by (simp add: mk_portal_def module12_def mk_module_def mk_lesson_def mk_quiz_def
      isLessonUnlocked_def at_index_def isQuizUnlocked_def isModuleComplete_def
      getTotalProgress_eq spec_total_def spec_done_def all_modules_def round64_zero)

section \<open>Progression state machine\<close>

text \<open>
  Claim C1, amended. \<open>isLessonUnlocked\<close> looks the lesson up by its id
  (\<open>findIndex\<close> returns the first lesson carrying that id). For every module whose
  lessons carry pairwise distinct ids and every position \<open>i\<close> of its lesson list,
  \<open>isLessonUnlocked\<close> of the lesson at \<open>i\<close> returns true exactly if \<open>i\<close> is the first
  position or the lesson at \<open>i - 1\<close> has its id in the completed-lessons set; the
  result is the same in any other state that agrees on the membership of that one id.
\<close>

theorem lessonUnlocked_distinct_ids:
  assumes "distinct (map l_id (lessons m))" and "i < length (lessons m)"
  shows "isLessonUnlocked s (lessons m ! i) m =
           Inr (i = 0 \<or> l_id (lessons m ! (i - 1)) \<in> completedLessons s)
         \<and> (\<forall>s'. (i = 0 \<or> (l_id (lessons m ! (i - 1)) \<in> completedLessons s')
                           = (l_id (lessons m ! (i - 1)) \<in> completedLessons s))
               \<longrightarrow> isLessonUnlocked s' (lessons m ! i) m = isLessonUnlocked s (lessons m ! i) m)"
proof -
  have f: "findIndex (\<lambda>l. l_id l = l_id (lessons m ! i)) (lessons m) = int i"
    using assms by (rule findIndex_distinct)
  have u: "\<And>t. isLessonUnlocked t (lessons m ! i) m =
             Inr (i = 0 \<or> l_id (lessons m ! (i - 1)) \<in> completedLessons t)"
    using f by (rule isLessonUnlocked_found)
  show ?thesis by (auto simp: u)
qed

theorem lessonUnlocked_distinct_ids_witness:
  "distinct (map l_id (lessons module123))
   \<and> (1::nat) < length (lessons module123)
   \<and> isLessonUnlocked (mk_portal [module123] {''L1''} {}) (lessons module123 ! 1) module123 = Inr True
   \<and> (2::nat) < length (lessons module123)
   \<and> isLessonUnlocked (mk_portal [module123] {''L1''} {}) (lessons module123 ! 2) module123 = Inr False"
  using lessonUnlocked_distinct_ids [of module123 1 "mk_portal [module123] {''L1''} {}"]
    lessonUnlocked_distinct_ids [of module123 2 "mk_portal [module123] {''L1''} {}"]
  by (simp add: module123_def mk_module_def mk_lesson_def mk_portal_def)

text \<open>
  Claim C1 as stated quantifies over every module. In a module whose third lesson
  repeats the id of the first, the third lesson is reported unlocked although it is
  not the first element and its immediate predecessor is not completed.
\<close>

theorem lessonUnlocked_duplicate_id_counterexample:
  "isLessonUnlocked (mk_portal [module_dup] {} {}) (lessons module_dup ! 2) module_dup = Inr True
   \<and> lessons module_dup ! 2 \<in> set (lessons module_dup)
   \<and> lessons module_dup ! 2 \<noteq> hd (lessons module_dup)
   \<and> l_id (lessons module_dup ! 1) \<notin> completedLessons (mk_portal [module_dup] {} {})"
  by (simp add: module_dup_def mk_module_def mk_lesson_def mk_portal_def isLessonUnlocked_def)

text \<open>
  Claim C10. When the lesson's id occurs in the module's lesson list, the index found
  is not negative, the predecessor lookup for a positive index is in range, and
  \<open>isLessonUnlocked\<close> returns a boolean. When the id does not occur, the search
  yields \<open>-1\<close>, the lookup at index \<open>-2\<close> finds no element, and reading its \<open>id\<close>
  throws a \<open>TypeError\<close>.
\<close>

theorem lessonUnlocked_precondition:
  "(l_id lesson \<in> l_id ` set (lessons m) \<longrightarrow>
      0 \<le> findIndex (\<lambda>l. l_id l = l_id lesson) (lessons m)
      \<and> (0 < findIndex (\<lambda>l. l_id l = l_id lesson) (lessons m) \<longrightarrow>
           at_index (lessons m) (findIndex (\<lambda>l. l_id l = l_id lesson) (lessons m) - 1) \<noteq> None)
      \<and> (\<exists>b. isLessonUnlocked s lesson m = Inr b))
   \<and> (l_id lesson \<notin> l_id ` set (lessons m) \<longrightarrow>
      findIndex (\<lambda>l. l_id l = l_id lesson) (lessons m) = - 1
      \<and> at_index (lessons m) (findIndex (\<lambda>l. l_id l = l_id lesson) (lessons m) - 1) = None
      \<and> isLessonUnlocked s lesson m = Inl TypeError)"
proof -
  let ?k = "findIndex (\<lambda>l. l_id l = l_id lesson) (lessons m)"
  have ge: "- 1 \<le> ?k" by (rule findIndex_ge)
  have lt: "?k < int (length (lessons m))" by (rule findIndex_lt)
  have none: "(?k = - 1) = (l_id lesson \<notin> l_id ` set (lessons m))"
    unfolding findIndex_none by (metis (mono_tags) imageE imageI)
  show ?thesis
  proof (cases "?k = - 1")
    case True
    then show ?thesis using none
      by (simp add: isLessonUnlocked_missing at_index_def)
  next
    case False
    with ge have "0 \<le> ?k" by arith
    then obtain i where i: "?k = int i" using nonneg_int_cases by blast
    have "isLessonUnlocked s lesson m =
            Inr (i = 0 \<or> l_id (lessons m ! (i - 1)) \<in> completedLessons s)"
      using i by (rule isLessonUnlocked_found)
    then have ex: "\<exists>b. isLessonUnlocked s lesson m = Inr b" by blast
    have idx: "0 < ?k \<longrightarrow> at_index (lessons m) (?k - 1) \<noteq> None"
      using lt by (simp add: at_index_def)
    from False none \<open>0 \<le> ?k\<close> ex idx show ?thesis by simp
  qed
qed

theorem lessonUnlocked_precondition_witness:
  "l_id (mk_lesson ''L2'') \<in> l_id ` set (lessons module123)
   \<and> isLessonUnlocked (mk_portal [module123] {} {}) (mk_lesson ''L2'') module123 = Inr False
   \<and> l_id (mk_lesson ''LX'') \<notin> l_id ` set (lessons module123)
   \<and> isLessonUnlocked (mk_portal [module123] {} {}) (mk_lesson ''LX'') module123 = Inl TypeError"
  using lessonUnlocked_precondition [of "mk_lesson ''L2''" module123 "mk_portal [module123] {} {}"]
    lessonUnlocked_precondition [of "mk_lesson ''LX''" module123 "mk_portal [module123] {} {}"]
  by (simp add: module123_def mk_module_def mk_lesson_def mk_portal_def isLessonUnlocked_def
      at_index_def)

text \<open>
  Claim C6. \<open>isQuizUnlocked\<close> holds of a module exactly if every lesson of the module
  has its id in the completed-lessons set; for a module without lessons it holds.
\<close>

theorem quizUnlocked_iff_all_lessons:
  "(isQuizUnlocked s m \<longleftrightarrow> (\<forall>lesson \<in> set (lessons m). l_id lesson \<in> completedLessons s))
   \<and> (lessons m = [] \<longrightarrow> isQuizUnlocked s m)"
  by (simp add: isQuizUnlocked_def list_all_iff)

theorem quizUnlocked_iff_all_lessons_witness:
  "isQuizUnlocked (mk_portal [module12] {''L1'', ''L2''} {}) module12
   \<and> \<not> isQuizUnlocked (mk_portal [module12] {''L1''} {}) module12
   \<and> lessons (mk_module [] None) = []
   \<and> isQuizUnlocked (mk_portal [] {} {}) (mk_module [] None)"
  using quizUnlocked_iff_all_lessons [of "mk_portal [module12] {''L1'', ''L2''} {}" module12]
    quizUnlocked_iff_all_lessons [of "mk_portal [module12] {''L1''} {}" module12]
    quizUnlocked_iff_all_lessons [of "mk_portal [] {} {}" "mk_module [] None"]
  by (simp add: mk_portal_def module12_def mk_module_def mk_lesson_def)

text \<open>
  Claim C4, amended. For every curriculum tree and every pair of completion sets,
  \<open>getTotalProgress\<close> returns the binary64 result of \<open>(done / total) * 100\<close>: the
  quotient rounded to binary64, multiplied by 100 and rounded again. This value differs
  from \<open>100 * done / total\<close> by at most \<open>100 * done / total / 2^51\<close>. Here \<open>total\<close> sums,
  over all modules, the number of lessons plus one if the module has a quiz, and
  \<open>done\<close> counts the completed lessons and the completed quizzes of the modules. When
  \<open>total\<close> is \<open>0\<close>, in particular for an empty phase list, the result is exactly \<open>0\<close>,
  and the result is never \<open>NaN\<close>. Lessons and quizzes are counted by occurrence in the
  tree; when the ids of the tree are pairwise distinct, \<open>done\<close> is the number of
  completed ids that occur in the tree (lemma \<open>spec_done_card\<close>), and \<open>done\<close> never
  exceeds \<open>total\<close> (lemma \<open>spec_done_le_total\<close>).
\<close>

theorem totalProgress_value:
  "getTotalProgress s =
     (if spec_total s = 0 then Num 0
      else Num (round64 (round64 (real (spec_done s) / real (spec_total s)) * 100)))
   \<and> \<bar>round64 (round64 (real (spec_done s) / real (spec_total s)) * 100)
        - 100 * real (spec_done s) / real (spec_total s)\<bar>
       \<le> 100 * real (spec_done s) / real (spec_total s) / 2 ^ 51
   \<and> getTotalProgress s \<noteq> NaN
   \<and> getTotalProgress (s\<lparr>phases := []\<rparr>) = Num 0"
proof -
  have e: "spec_total (s\<lparr>phases := []\<rparr>) = 0"
    by (simp add: spec_total_def all_modules_def)
  have b: "\<bar>round64 (round64 (real (spec_done s) / real (spec_total s)) * 100)
             - 100 * real (spec_done s) / real (spec_total s)\<bar>
           \<le> 100 * real (spec_done s) / real (spec_total s) / 2 ^ 51"
    using percent_error [of "real (spec_done s) / real (spec_total s)"] by simp
  have v: "getTotalProgress s =
     (if spec_total s = 0 then Num 0
      else Num (round64 (round64 (real (spec_done s) / real (spec_total s)) * 100)))"
    by (rule getTotalProgress_eq)
  have n: "getTotalProgress s \<noteq> NaN" by (simp add: v)
  have z: "getTotalProgress (s\<lparr>phases := []\<rparr>) = Num 0" by (simp add: getTotalProgress_eq e)
  from v b n z show ?thesis by blast
qed

text \<open>
  Claim C4 as stated gives the value \<open>100 * done / total\<close>. With one of three items
  completed the code returns \<open>33.33333333333333\<close>, which is neither \<open>100 / 3\<close> nor
  the binary64 value nearest to it.
\<close>

theorem totalProgress_value_counterexample:
  "spec_done (mk_portal [module12] {''L1''} {}) = 1
   \<and> spec_total (mk_portal [module12] {''L1''} {}) = 3
   \<and> getTotalProgress (mk_portal [module12] {''L1''} {}) = Num (2345624805922133 / 2 ^ 46)
   \<and> getTotalProgress (mk_portal [module12] {''L1''} {}) \<noteq> Num (100 * 1 / 3)
   \<and> getTotalProgress (mk_portal [module12] {''L1''} {}) \<noteq> Num (round64 (100 * 1 / 3))"
proof -
  have d: "spec_done (mk_portal [module12] {''L1''} {}) = 1"
    by (simp add: mk_portal_def module12_def mk_module_def mk_lesson_def mk_quiz_def
        spec_done_def all_modules_def)
  have t: "spec_total (mk_portal [module12] {''L1''} {}) = 3"
    by (simp add: mk_portal_def module12_def mk_module_def mk_lesson_def mk_quiz_def
        spec_total_def all_modules_def)
  have g: "getTotalProgress (mk_portal [module12] {''L1''} {}) = Num (2345624805922133 / 2 ^ 46)"
    by (simp only: getTotalProgress_eq d t) (simp add: percent_one_of_three)
  show ?thesis
    by (simp only: d t g) (simp add: round64_hundred_thirds)
qed

text \<open>
  Claim C7. For a fixed curriculum tree \<open>getTotalProgress\<close> is monotone in the pair of
  completion sets, and therefore does not decrease along any sequence of completion
  events (lesson completions and quiz outcomes, in any order).
\<close>

theorem totalProgress_monotone:
  "(phases s' = phases s \<and> completedLessons s \<subseteq> completedLessons s' \<and>
    completedQuizzes s \<subseteq> completedQuizzes s'
      \<longrightarrow> number_le (getTotalProgress s) (getTotalProgress s'))
   \<and> number_le (getTotalProgress s) (getTotalProgress (foldl apply_event s es))"
  using progress_mono [of s' s] progress_mono [of "foldl apply_event s es" s]
    foldl_events_grow [of s es]
  by blast

theorem totalProgress_monotone_witness:
  "phases (mk_portal [module12] {''L1'', ''L2''} {''Q''}) = phases (mk_portal [module12] {''L1''} {})
   \<and> completedLessons (mk_portal [module12] {''L1''} {}) \<subseteq> completedLessons (mk_portal [module12] {''L1'', ''L2''} {''Q''})
   \<and> completedQuizzes (mk_portal [module12] {''L1''} {}) \<subseteq> completedQuizzes (mk_portal [module12] {''L1'', ''L2''} {''Q''})
   \<and> number_le (getTotalProgress (mk_portal [module12] {''L1''} {}))
        (getTotalProgress (mk_portal [module12] {''L1'', ''L2''} {''Q''}))
   \<and> getTotalProgress (mk_portal [module12] {''L1''} {}) = Num (2345624805922133 / 2 ^ 46)
   \<and> getTotalProgress (mk_portal [module12] {''L1'', ''L2''} {''Q''}) = Num 100
   \<and> number_le (getTotalProgress (mk_portal [module12] {} {}))
        (getTotalProgress (foldl apply_event (mk_portal [module12] {} {})
           [LessonCompleted ''L2'', QuizFinished ''Q'' False, LessonCompleted ''L1'']))"
  using totalProgress_monotone [of "mk_portal [module12] {''L1'', ''L2''} {''Q''}"
      "mk_portal [module12] {''L1''} {}"
      "[LessonCompleted ''L2'', QuizFinished ''Q'' False, LessonCompleted ''L1'']"]
    totalProgress_monotone [of "mk_portal [module12] {} {}" "mk_portal [module12] {} {}"
      "[LessonCompleted ''L2'', QuizFinished ''Q'' False, LessonCompleted ''L1'']"]
  by (simp add: mk_portal_def module12_def mk_module_def mk_lesson_def mk_quiz_def
      getTotalProgress_eq spec_total_def spec_done_def all_modules_def
      percent_one_of_three percent_all)

text \<open>
  Claim C5. Processing a quiz outcome with \<open>passed = false\<close> leaves the completed-lessons
  set and the completed-quizzes set unchanged; the quiz id enters the completed-quizzes
  set only when \<open>passed = true\<close> (after the call it is a member exactly if the attempt
  passed or it was a member before).
\<close>

theorem failed_quiz_leaves_sets:
  "completedLessons (handleQuizComplete s quizId False) = completedLessons s
   \<and> completedQuizzes (handleQuizComplete s quizId False) = completedQuizzes s
   \<and> completedLessons (handleQuizComplete s quizId True) = completedLessons s
   \<and> completedQuizzes (handleQuizComplete s quizId True) = insert quizId (completedQuizzes s)
   \<and> (quizId \<in> completedQuizzes (handleQuizComplete s quizId passed))
       = (passed \<or> quizId \<in> completedQuizzes s)"
  by (simp add: handleQuizComplete_def)

section \<open>Quiz session\<close>

text \<open>
  Claim C3, amended. For a session with a non-empty question list (an array, so of
  fewer than \<open>2^32\<close> questions) and a complete answer map, the submitted score is the
  binary64 result of \<open>(correct / total) * 100\<close>, where \<open>correct\<close> counts the questions
  whose recorded answer equals \<open>correctAnswer\<close>; it differs from
  \<open>100 * correct / total\<close> by at most \<open>100 * correct / total / 2^51\<close>. \<open>handleFinish\<close>
  reports the session as passed exactly if \<open>100 * correct / total\<close> is at least 70, and
  the portal records the quiz on that outcome alone, whatever the quiz record (and so
  its \<open>passingScore\<close>) is.
\<close>

theorem quiz_score_and_threshold:
  assumes "questions st \<noteq> []" and "length (questions st) < 2 ^ 32" and "allAnswered st"
  shows "score (handleSubmit st) =
           Num (round64 (round64 (real (correct_count st) / real (length (questions st))) * 100))
         \<and> \<bar>round64 (round64 (real (correct_count st) / real (length (questions st))) * 100)
              - 100 * real (correct_count st) / real (length (questions st))\<bar>
             \<le> 100 * real (correct_count st) / real (length (questions st)) / 2 ^ 51
         \<and> handleFinish (handleSubmit st) =
             (70 \<le> 100 * real (correct_count st) / real (length (questions st)))
         \<and> (currentQuiz s = Some (q_id q) \<longrightarrow>
             completedQuizzes (finishQuiz s (handleSubmit st)) =
               (if 70 \<le> 100 * real (correct_count st) / real (length (questions st))
                then insert (q_id q) (completedQuizzes s) else completedQuizzes s))"
proof -
  have n: "0 < length (questions st)" using assms(1) by simp
  have sc: "score (handleSubmit st) =
              Num (round64 (round64 (real (correct_count st) / real (length (questions st))) * 100))"
    using assms(1) by (rule handleSubmit_score_nonempty)
  have b: "\<bar>round64 (round64 (real (correct_count st) / real (length (questions st))) * 100)
              - 100 * real (correct_count st) / real (length (questions st))\<bar>
             \<le> 100 * real (correct_count st) / real (length (questions st)) / 2 ^ 51"
    using percent_error [of "real (correct_count st) / real (length (questions st))"] by simp
  have fin: "handleFinish (handleSubmit st) =
               (70 \<le> 100 * real (correct_count st) / real (length (questions st)))"
    using percent_threshold [OF n assms(2), of "correct_count st"]
    by (simp add: handleFinish_def sc)
  have rec: "currentQuiz s = Some (q_id q) \<longrightarrow>
             completedQuizzes (finishQuiz s (handleSubmit st)) =
               (if 70 \<le> 100 * real (correct_count st) / real (length (questions st))
                then insert (q_id q) (completedQuizzes s) else completedQuizzes s)"
    by (simp add: fin finishQuiz_def handleQuizComplete_def)
  from sc b fin rec show ?thesis by blast
qed

theorem quiz_score_and_threshold_witness:
  "questions (session4 answers3) \<noteq> []
   \<and> length (questions (session4 answers3)) < 2 ^ 32
   \<and> allAnswered (session4 answers3)
   \<and> score (handleSubmit (session4 answers3)) = Num 75
   \<and> handleFinish (handleSubmit (session4 answers3))
   \<and> currentQuiz ((mk_portal [] {} {})\<lparr>currentQuiz := Some ''Q''\<rparr>) = Some (q_id (mk_quiz ''Q'' 100))
   \<and> completedQuizzes (finishQuiz ((mk_portal [] {} {})\<lparr>currentQuiz := Some ''Q''\<rparr>)
        (handleSubmit (session4 answers3))) = {''Q''}"
proof -
  have q: "questions (session4 answers3) \<noteq> []" "length (questions (session4 answers3)) < 2 ^ 32"
    by (simp_all add: session4_def quiz4_def)
  have a: "allAnswered (session4 answers3)"
    by (simp add: session4_def answers3_def quiz4_def mk_question_def quiz_initial_def
        allAnswered_def get_property_def)
  have c: "correct_count (session4 answers3) = 3" "length (questions (session4 answers3)) = 4"
    by (simp_all add: session4_def answers3_def quiz4_def mk_question_def quiz_initial_def
        correct_count_def get_property_def)
  show ?thesis
    using quiz_score_and_threshold [OF q a,
        of "(mk_portal [] {} {})\<lparr>currentQuiz := Some ''Q''\<rparr>" "mk_quiz ''Q'' 100"] q a
    by (simp add: c percent_three_of_four mk_portal_def mk_quiz_def)
qed

text \<open>
  Claim C3 as stated gives the score \<open>100 * correct / total\<close>. With eleven of twenty
  questions answered correctly that is \<open>55\<close>, a binary64 value; the code stores
  \<open>55.00000000000001\<close>.
\<close>

theorem quiz_score_counterexample:
  "length (questions session20) = 20
   \<and> allAnswered session20
   \<and> correct_count session20 = 11
   \<and> score (handleSubmit session20) = Num (55 + 1 / 2 ^ 47)
   \<and> score (handleSubmit session20)
       \<noteq> Num (100 * real (correct_count session20) / real (length (questions session20)))"
proof -
  have n: "questions session20 \<noteq> []" by (simp add: session20_def quiz20_def)
  have s: "score (handleSubmit session20) = Num (55 + 1 / 2 ^ 47)"
    using handleSubmit_score_nonempty [OF n] session20_counts
    by (simp add: percent_eleven_of_twenty)
  show ?thesis using session20_counts by (simp add: s)
qed

text \<open>
  Claim C9. A quiz response without \<open>error\<close> field whose \<open>questions\<close> list is missing
  or empty should lead to the failed-to-load view, as a thrown fetch and a reported
  error do. The viewer stores the empty list, clears \<open>loading\<close>, sets no error, and
  the render of the question view then throws a \<open>TypeError\<close> on
  \<open>currentQuestion.question\<close>.
\<close>

theorem empty_quiz_render_throws:
  "render (fetchQuiz (FetchJson \<lparr>data_error = None, data_questions = Some []\<rparr>) quiz_initial)
     = Inl TypeError
   \<and> render (fetchQuiz (FetchJson \<lparr>data_error = None, data_questions = None\<rparr>) quiz_initial)
     = Inl TypeError
   \<and> render (fetchQuiz FetchThrows quiz_initial) = Inr (FailedToLoadView ''Failed to load quiz.'')
   \<and> render (fetchQuiz (FetchJson \<lparr>data_error = Some ''Quiz not found'', data_questions = None\<rparr>)
        quiz_initial) = Inr (FailedToLoadView ''Failed to load quiz.'')"
  by (simp add: render_def fetchQuiz_def quiz_initial_def at_index_def Let_def)

section \<open>Movement and collision\<close>

text \<open>
  Claim C2. For every obstacle list and candidate point \<open>(x, y)\<close> of a tick in which a
  movement key is held, the tick accepts the move (commits the point and the facing,
  sets the walking flag) exactly if the box \<open>[x - 8, x + 8] \<times> [y - 16, y + 8]\<close> overlaps
  no obstacle (strictly, on both axes) and \<open>(x, y)\<close> lies within the permitted bounds;
  otherwise the position and the facing stay and the walking flag is cleared.
\<close>

theorem move_accepted_iff:
  assumes "candidate keysPressed s = (x, y, True, d)"
  shows "(\<not> checkCollision sc x y) = move_permitted sc x y
         \<and> isWalking (moveCharacter sc keysPressed s) = move_permitted sc x y
         \<and> characterPos (moveCharacter sc keysPressed s) =
             (if move_permitted sc x y then \<lparr>pos_x = x, pos_y = y\<rparr> else characterPos s)
         \<and> direction (moveCharacter sc keysPressed s) =
             (if move_permitted sc x y then d else direction s)"
  using assms by (simp add: moveCharacter_def checkCollision_iff)

theorem move_accepted_iff_witness:
  "candidate {''ArrowRight''} scene_initial = (302, 200, True, FaceRight)
   \<and> move_permitted park 302 200
   \<and> isWalking (moveCharacter park {''ArrowRight''} scene_initial)
   \<and> characterPos (moveCharacter park {''ArrowRight''} scene_initial) = \<lparr>pos_x = 302, pos_y = 200\<rparr>
   \<and> candidate {''s''} (scene_at 300 204 FaceDown True True) = (300, 206, True, FaceDown)
   \<and> \<not> move_permitted park 300 206
   \<and> \<not> isWalking (moveCharacter park {''s''} (scene_at 300 204 FaceDown True True))
   \<and> characterPos (moveCharacter park {''s''} (scene_at 300 204 FaceDown True True))
       = \<lparr>pos_x = 300, pos_y = 204\<rparr>"
proof -
  have c1: "candidate {''ArrowRight''} scene_initial = (302, 200, True, FaceRight)"
    by (simp add: candidate_def scene_initial_def)
  have c2: "candidate {''s''} (scene_at 300 204 FaceDown True True) = (300, 206, True, FaceDown)"
    by (simp add: candidate_def scene_at_def)
  have p1: "move_permitted park 302 200"
    by (simp add: move_permitted_def park_def box_overlaps_def within_bounds_def)
  have p2: "\<not> move_permitted park 300 206"
    by (simp add: move_permitted_def park_def box_overlaps_def within_bounds_def)
  show ?thesis
    using move_accepted_iff [OF c1, of park] move_accepted_iff [OF c2, of park] c1 c2 p1 p2
    by (simp add: scene_initial_def scene_at_def)
qed

text \<open>
  Claim C8, amended. After a tick in which a movement key is held and the candidate is
  accepted, the prompt flag is the strict point-in-rectangle test of the actor's new
  position against the portal zone. After a tick in which no movement key is held, the
  position and the prompt flag are both as before the tick: the flag is not tested
  again.
\<close>

theorem prompt_after_tick:
  assumes "candidate keysPressed s = (x, y, moved, d)"
  shows "moved = key_held keysPressed
         \<and> (moved \<and> \<not> checkCollision sc x y \<longrightarrow>
              characterPos (moveCharacter sc keysPressed s) = \<lparr>pos_x = x, pos_y = y\<rparr>
              \<and> showPrompt (moveCharacter sc keysPressed s) =
                  checkPortalZone sc (pos_x (characterPos (moveCharacter sc keysPressed s)))
                    (pos_y (characterPos (moveCharacter sc keysPressed s))))
         \<and> (\<not> moved \<longrightarrow>
              characterPos (moveCharacter sc keysPressed s) = characterPos s
              \<and> showPrompt (moveCharacter sc keysPressed s) = showPrompt s)
         \<and> checkPortalZone sc px py =
             (rect_x (portalZone sc) < px \<and> px < rect_x (portalZone sc) + width (portalZone sc)
              \<and> rect_y (portalZone sc) < py \<and> py < rect_y (portalZone sc) + height (portalZone sc))"
proof -
  have m: "moved = key_held keysPressed"
    using candidate_moved [of keysPressed s] assms by simp
  have z: "checkPortalZone sc px py =
             (rect_x (portalZone sc) < px \<and> px < rect_x (portalZone sc) + width (portalZone sc)
              \<and> rect_y (portalZone sc) < py \<and> py < rect_y (portalZone sc) + height (portalZone sc))"
    by (simp add: checkPortalZone_def)
  have a: "moved \<and> \<not> checkCollision sc x y \<longrightarrow>
              characterPos (moveCharacter sc keysPressed s) = \<lparr>pos_x = x, pos_y = y\<rparr>
              \<and> showPrompt (moveCharacter sc keysPressed s) =
                  checkPortalZone sc (pos_x (characterPos (moveCharacter sc keysPressed s)))
                    (pos_y (characterPos (moveCharacter sc keysPressed s)))"
    using assms by (simp add: moveCharacter_def)
  have n: "\<not> moved \<longrightarrow>
              characterPos (moveCharacter sc keysPressed s) = characterPos s
              \<and> showPrompt (moveCharacter sc keysPressed s) = showPrompt s"
    using assms by (simp add: moveCharacter_def)
  from m a n z show ?thesis by blast
qed

theorem prompt_after_tick_witness:
  "candidate {''ArrowRight''} scene_initial = (302, 200, True, FaceRight)
   \<and> key_held {''ArrowRight''}
   \<and> \<not> checkCollision park 302 200
   \<and> characterPos (moveCharacter park {''ArrowRight''} scene_initial) = \<lparr>pos_x = 302, pos_y = 200\<rparr>
   \<and> showPrompt (moveCharacter park {''ArrowRight''} scene_initial)
   \<and> checkPortalZone park 302 200
   \<and> candidate {''x''} (scene_at 100 200 FaceLeft True False) = (100, 200, False, FaceLeft)
   \<and> \<not> key_held {''x''}
   \<and> characterPos (moveCharacter park {''x''} (scene_at 100 200 FaceLeft True False))
       = \<lparr>pos_x = 100, pos_y = 200\<rparr>
   \<and> \<not> showPrompt (moveCharacter park {''x''} (scene_at 100 200 FaceLeft True False))"
proof -
  have c1: "candidate {''ArrowRight''} scene_initial = (302, 200, True, FaceRight)"
    by (simp add: candidate_def scene_initial_def)
  have c2: "candidate {''x''} (scene_at 100 200 FaceLeft True False) = (100, 200, False, FaceLeft)"
    by (simp add: candidate_def scene_at_def)
  have k: "\<not> checkCollision park 302 200"
    by (simp add: checkCollision_def park_def)
  show ?thesis
    using prompt_after_tick [OF c1, of park 302 200] prompt_after_tick [OF c2, of park 0 0] c1 c2 k
    by (simp add: scene_at_def park_def)
qed

text \<open>
  Claim C8 as stated fails on the first tick of the scene. The actor starts at
  \<open>(300, 200)\<close>, inside the portal zone, with the prompt flag false, and a tick
  without a held key leaves the flag false. It fails as well where a move is rejected:
  from \<open>(282, 204)\<close>, reached from the start by nine ticks left and two down, the
  candidate \<open>(280, 206)\<close> of a tick with down and left held hits a bush; the actor
  stays inside the zone and the flag becomes false.
\<close>

theorem prompt_after_tick_counterexample:
  "\<not> key_held {}
   \<and> characterPos (moveCharacter park {} scene_initial) = \<lparr>pos_x = 300, pos_y = 200\<rparr>
   \<and> checkPortalZone park 300 200
   \<and> \<not> showPrompt (moveCharacter park {} scene_initial)
   \<and> ticks park walk_to_zone_edge scene_initial = scene_at 282 204 FaceDown True True
   \<and> candidate {''ArrowDown'', ''ArrowLeft''} (scene_at 282 204 FaceDown True True)
       = (280, 206, True, FaceLeft)
   \<and> checkCollision park 280 206
   \<and> characterPos (moveCharacter park {''ArrowDown'', ''ArrowLeft''} (scene_at 282 204 FaceDown True True))
       = \<lparr>pos_x = 282, pos_y = 204\<rparr>
   \<and> checkPortalZone park 282 204
   \<and> \<not> showPrompt (moveCharacter park {''ArrowDown'', ''ArrowLeft''} (scene_at 282 204 FaceDown True True))"
proof -
  have c: "candidate {''ArrowDown'', ''ArrowLeft''} (scene_at 282 204 FaceDown True True)
       = (280, 206, True, FaceLeft)"
    by (simp add: candidate_def scene_at_def)
  have k: "checkCollision park 280 206"
    by (simp add: checkCollision_def park_def)
  have z: "checkPortalZone park 300 200 \<and> checkPortalZone park 282 204
           \<and> \<not> checkPortalZone park 280 206"
    by (simp add: checkPortalZone_def park_def)
  have i: "candidate {} scene_initial = (300, 200, False, FaceDown)"
    by (simp add: candidate_def scene_initial_def)
  have t0: "moveCharacter park {} scene_initial = scene_initial"
    by (simp add: moveCharacter_def i) (simp add: scene_initial_def)
  have t1: "moveCharacter park {''ArrowDown'', ''ArrowLeft''} (scene_at 282 204 FaceDown True True)
              = scene_at 282 204 FaceDown False False"
    by (simp add: moveCharacter_def c k z) (simp add: scene_at_def)
  show ?thesis
    by (simp add: c k z t0 t1 walk_reaches_edge key_held_def) (simp add: scene_initial_def scene_at_def)
qed

end
